theory Spec2Isabelle
  imports Complex_Main "HOL-Library.Sublist" "HOL-Library.List_Lexorder" "HOL-Library.Log_Nat"
begin

section \<open>Python values\<close>

text \<open>
  \<^verbatim>\<open>src/app.py\<close> keeps the catalog in \<^verbatim>\<open>self.library\<close>, a Python object that is either the
  list built by \<^verbatim>\<open>__init__\<close> and \<^verbatim>\<open>add_book\<close> or whatever \<^verbatim>\<open>json.load\<close> returned. The model
  therefore works on dynamically typed values: the values \<^verbatim>\<open>json.load\<close> can produce, without
  numbers that have a fraction or an exponent. A dict is an association list in insertion
  order; Python dicts have pairwise different keys.

  A Python string is a sequence of Unicode code points, here a list of natural numbers.
  \<open>str\<close> gives the Python string for a text of ASCII characters, so that
  \<open>str ''title''\<close> stands for the literal \<^verbatim>\<open>"title"\<close> of the source.
\<close>

type_synonym pystr = "nat list"

definition str :: "string \<Rightarrow> pystr" where
  "str s = map of_char s"

datatype pyval =
    PNone
  | PBool bool
  | PInt int
  | PStr pystr
  | PList "pyval list"
  | PDict "(pystr \<times> pyval) list"

text \<open>The exceptions the methods of \<^verbatim>\<open>LibraryManager\<close> can raise on such values.\<close>

datatype py_error =
  TypeError | KeyError | AttributeError | IndexError | ZeroDivisionError | OverflowError

text \<open>\<^verbatim>\<open>obj[key]\<close> with a string key: only a dict accepts it.\<close>

fun getitem :: "pyval \<Rightarrow> pystr \<Rightarrow> py_error + pyval" where
  "getitem (PDict kvs) k = (case map_of kvs k of None \<Rightarrow> Inl KeyError | Some v \<Rightarrow> Inr v)"
| "getitem _ k = Inl TypeError"

text \<open>\<^verbatim>\<open>len(obj)\<close>.\<close>

fun py_len :: "pyval \<Rightarrow> py_error + int" where
  "py_len (PList xs) = Inr (int (length xs))"
| "py_len (PStr s) = Inr (int (length s))"
| "py_len (PDict kvs) = Inr (int (length kvs))"
| "py_len _ = Inl TypeError"

text \<open>\<^verbatim>\<open>for x in obj\<close>: a list yields its elements, a string its characters, a dict its keys.\<close>

fun py_iter :: "pyval \<Rightarrow> py_error + pyval list" where
  "py_iter (PList xs) = Inr xs"
| "py_iter (PStr s) = Inr (map (\<lambda>c. PStr [c]) s)"
| "py_iter (PDict kvs) = Inr (map (\<lambda>kv. PStr (fst kv)) kvs)"
| "py_iter _ = Inl TypeError"

text \<open>The truth value of an object in a condition.\<close>

fun truthy :: "pyval \<Rightarrow> bool" where
  "truthy PNone = False"
| "truthy (PBool b) = b"
| "truthy (PInt i) = (i \<noteq> 0)"
| "truthy (PStr s) = (s \<noteq> [])"
| "truthy (PList xs) = (xs \<noteq> [])"
| "truthy (PDict kvs) = (kvs \<noteq> [])"

subsection \<open>Lower case\<close>

text \<open>
  \<^verbatim>\<open>str.lower\<close> follows the Unicode Standard: every character is replaced by its lowercase
  mapping, a sequence of characters taken from the Unicode character database of the
  interpreter, except the capital sigma (U+03A3), which becomes the final small sigma
  (U+03C2) when a cased character stands before it and none after it, case-ignorable
  characters skipped on both sides, and the small sigma (U+03C3) otherwise. The database
  is data of the Python installation and a parameter of the model: the lowercase mapping
  and the two properties the sigma rule reads.
\<close>

record unicode_db =
  lowercase_mapping :: "nat \<Rightarrow> pystr"
  cased :: "nat \<Rightarrow> bool"
  case_ignorable :: "nat \<Rightarrow> bool"

text \<open>
  \<open>cased_next\<close>: the first character that is not case-ignorable is cased. In
  \<open>final_sigma\<close> and \<open>lower_from\<close>, \<open>left\<close> is the text before the current character, read
  backwards, and \<open>right\<close> the text after it.
\<close>

definition cased_next :: "unicode_db \<Rightarrow> pystr \<Rightarrow> bool" where
  "cased_next db s =
     (case dropWhile (case_ignorable db) s of [] \<Rightarrow> False | c # rest \<Rightarrow> cased db c)"

definition final_sigma :: "unicode_db \<Rightarrow> pystr \<Rightarrow> pystr \<Rightarrow> bool" where
  "final_sigma db left right = (cased_next db left \<and> \<not> cased_next db right)"

fun lower_from :: "unicode_db \<Rightarrow> pystr \<Rightarrow> pystr \<Rightarrow> pystr" where
  "lower_from db left [] = []"
| "lower_from db left (c # right) =
     (if c = 931 then [if final_sigma db left right then 962 else 963]
      else lowercase_mapping db c)
     @ lower_from db (c # left) right"

text \<open>
  CPython lowers a string of ASCII characters (codes below 128) without the database:
  the letters A to Z (codes 65 to 90) move up by 32.
\<close>

definition is_ascii :: "pystr \<Rightarrow> bool" where
  "is_ascii s = list_all (\<lambda>c. c < 128) s"

definition ascii_lower :: "nat \<Rightarrow> nat" where
  "ascii_lower c = (if 65 \<le> c \<and> c \<le> 90 then c + 32 else c)"

definition lower :: "unicode_db \<Rightarrow> pystr \<Rightarrow> pystr" where
  "lower db s = (if is_ascii s then map ascii_lower s else lower_from db [] s)"

text \<open>\<^verbatim>\<open>obj.lower()\<close>: only a string has the method.\<close>

fun py_lower :: "unicode_db \<Rightarrow> pyval \<Rightarrow> py_error + pystr" where
  "py_lower db (PStr s) = Inr (lower db s)"
| "py_lower db _ = Inl AttributeError"

text \<open>\<^verbatim>\<open>needle in hay\<close> on two strings: \<open>needle\<close> starts at some position of \<open>hay\<close>.\<close>

fun str_contains :: "pystr \<Rightarrow> pystr \<Rightarrow> bool" where
  "str_contains needle [] = (needle = [])"
| "str_contains needle (h # hay) = (prefix needle (h # hay) \<or> str_contains needle hay)"

subsection \<open>Floats\<close>

text \<open>
  A Python float is a binary64 number. A finite float is modelled by the rational number
  it stands for (one zero for both signed zeros). \<open>round_binary64\<close> is the rounding of
  every float operation: the nearest number of the form \<open>m * 2 ^ u\<close> with an integer \<open>m\<close> of at
  most 53 bits and \<open>u\<close> at least -1074, the one with the even \<open>m\<close> when two are equally near.
  A result beyond the largest float overflows.
\<close>

definition round_half_even :: "rat \<Rightarrow> int" where
  "round_half_even q =
     (let n = \<lfloor>q\<rfloor>; f = q - of_int n
      in if f < 1 / 2 then n else if 1 / 2 < f then n + 1 else if even n then n else n + 1)"

text \<open>The integer \<open>e\<close> with \<open>2 ^ e \<le> x < 2 ^ (e + 1)\<close>, for positive \<open>x\<close>.\<close>

definition ilog2 :: "rat \<Rightarrow> int" where
  "ilog2 x =
     (let (p, q) = quotient_of x; d = bitlen p - bitlen q
      in if 2 powi d \<le> x then d else d - 1)"

definition round_binary64 :: "rat \<Rightarrow> rat" where
  "round_binary64 x =
     (if x = 0 then 0
      else let u = max (ilog2 \<bar>x\<bar> - 52) (- 1074)
           in of_int (round_half_even (x / 2 powi u)) * 2 powi u)"

definition max_binary64 :: rat where
  "max_binary64 = (2 ^ 53 - 1) * 2 ^ 971"

datatype pyfloat = Finite rat | PosInf | NegInf

text \<open>
  \<^verbatim>\<open>a / b\<close> on two integers is the correctly rounded quotient; it raises
  \<^verbatim>\<open>ZeroDivisionError\<close> when \<open>b\<close> is zero and \<^verbatim>\<open>OverflowError\<close> when the quotient is too large
  for a float, so that its result is a finite float.
\<close>

definition py_truediv :: "int \<Rightarrow> int \<Rightarrow> py_error + rat" where
  "py_truediv a b =
     (if b = 0 then Inl ZeroDivisionError
      else let r = round_binary64 (of_int a / of_int b)
           in if max_binary64 < \<bar>r\<bar> then Inl OverflowError else Inr r)"

text \<open>\<^verbatim>\<open>x * y\<close> on two finite floats: the rounded product, or an infinity.\<close>

definition float_mul :: "rat \<Rightarrow> rat \<Rightarrow> pyfloat" where
  "float_mul x y =
     (let r = round_binary64 (x * y)
      in if max_binary64 < r then PosInf else if r < - max_binary64 then NegInf else Finite r)"

subsection \<open>Comprehensions and lists\<close>

text \<open>
  A list comprehension \<^verbatim>\<open>[book for book in books if cond(book)]\<close>: the condition is
  evaluated element by element, and the first exception ends the comprehension.
\<close>

fun comprehension :: "(pyval \<Rightarrow> py_error + bool) \<Rightarrow> pyval list \<Rightarrow> py_error + pyval list" where
  "comprehension cond [] = Inr []"
| "comprehension cond (book # books) =
     (case cond book of
        Inl e \<Rightarrow> Inl e
      | Inr c \<Rightarrow>
          (case comprehension cond books of
             Inl e \<Rightarrow> Inl e
           | Inr results \<Rightarrow> Inr (if c then book # results else results)))"

text \<open>
  \<^verbatim>\<open>list.pop(index)\<close> returns the element and the shortened list; a negative index counts
  from the end. A string has no \<^verbatim>\<open>pop\<close>; \<^verbatim>\<open>dict.pop\<close> looks the integer up as a key, and the
  keys of a parsed JSON object are strings.
\<close>

fun pop :: "pyval \<Rightarrow> int \<Rightarrow> py_error + (pyval \<times> pyval)" where
  "pop (PList xs) i =
     (let n = int (length xs); j = (if i < 0 then i + n else i)
      in if 0 \<le> j \<and> j < n
         then Inr (xs ! nat j, PList (take (nat j) xs @ drop (Suc (nat j)) xs))
         else Inl IndexError)"
| "pop (PDict kvs) i = Inl KeyError"
| "pop _ i = Inl AttributeError"

section \<open>The catalog store\<close>

text \<open>The two attributes \<^verbatim>\<open>__init__\<close> gives a \<^verbatim>\<open>LibraryManager\<close>.\<close>

record LibraryManager =
  library :: pyval
  filename :: pystr

text \<open>
  \<^verbatim>\<open>add_book\<close>, lines 13 to 24. \<open>today\<close> is the text that
  \<^verbatim>\<open>datetime.now().strftime("%Y-%m-%d")\<close> yields when the method runs. Only a list has
  \<^verbatim>\<open>append\<close>. The result is the value returned or the exception raised, with the store
  as the call leaves it.
\<close>

definition add_book ::
  "LibraryManager \<Rightarrow> pystr \<Rightarrow> pyval \<Rightarrow> pyval \<Rightarrow> pyval \<Rightarrow> pyval \<Rightarrow> pyval
     \<Rightarrow> (py_error + pyval) \<times> LibraryManager" where
  "add_book self today title author year genre read_status =
     (let book = PDict
            [(str ''title'', title),
             (str ''author'', author),
             (str ''year'', year),
             (str ''genre'', genre),
             (str ''read'', read_status),
             (str ''date_added'', PStr today)]
      in case library self of
           PList books \<Rightarrow> (Inr book, self\<lparr>library := PList (books @ [book])\<rparr>)
         | _ \<Rightarrow> (Inl AttributeError, self))"

text \<open>
  \<^verbatim>\<open>remove_book\<close>, lines 26 to 31. The chained comparison \<^verbatim>\<open>0 <= index < len(...)\<close> does not
  evaluate \<^verbatim>\<open>len\<close> when \<^verbatim>\<open>0 <= index\<close> is false. When \<^verbatim>\<open>removed["title"]\<close> raises, the element
  is already gone from the list.
\<close>

definition remove_book ::
  "LibraryManager \<Rightarrow> int \<Rightarrow> (py_error + (bool \<times> pyval)) \<times> LibraryManager" where
  "remove_book self index =
     (if 0 \<le> index then
        (case py_len (library self) of
           Inl e \<Rightarrow> (Inl e, self)
         | Inr n \<Rightarrow>
             if index < n then
               (case pop (library self) index of
                  Inl e \<Rightarrow> (Inl e, self)
                | Inr (removed, rest) \<Rightarrow>
                    (case getitem removed (str ''title'') of
                       Inl e \<Rightarrow> (Inl e, self\<lparr>library := rest\<rparr>)
                     | Inr t \<Rightarrow> (Inr (True, t), self\<lparr>library := rest\<rparr>)))
             else (Inr (False, PStr (str '''')), self))
      else (Inr (False, PStr (str '''')), self))"

text \<open>
  \<^verbatim>\<open>search_by_title\<close> and \<^verbatim>\<open>search_by_author\<close>, lines 33 to 41. \<open>db\<close> is the Unicode
  character database \<^verbatim>\<open>str.lower\<close> reads.
\<close>

definition search_by_title ::
  "unicode_db \<Rightarrow> LibraryManager \<Rightarrow> pystr \<Rightarrow> py_error + pyval list" where
  "search_by_title db self title =
     (case py_iter (library self) of
        Inl e \<Rightarrow> Inl e
      | Inr books \<Rightarrow>
          comprehension
            (\<lambda>book. case getitem book (str ''title'') of
                      Inl e \<Rightarrow> Inl e
                    | Inr t \<Rightarrow>
                        (case py_lower db t of
                           Inl e \<Rightarrow> Inl e
                         | Inr lowered \<Rightarrow> Inr (str_contains (lower db title) lowered)))
            books)"

definition search_by_author ::
  "unicode_db \<Rightarrow> LibraryManager \<Rightarrow> pystr \<Rightarrow> py_error + pyval list" where
  "search_by_author db self author =
     (case py_iter (library self) of
        Inl e \<Rightarrow> Inl e
      | Inr books \<Rightarrow>
          comprehension
            (\<lambda>book. case getitem book (str ''author'') of
                      Inl e \<Rightarrow> Inl e
                    | Inr a \<Rightarrow>
                        (case py_lower db a of
                           Inl e \<Rightarrow> Inl e
                         | Inr lowered \<Rightarrow> Inr (str_contains (lower db author) lowered)))
            books)"

text \<open>
  \<^verbatim>\<open>get_statistics\<close>, lines 43 to 57. \<^verbatim>\<open>sum(1 for book in self.library if book["read"])\<close>
  adds a one for every element the comprehension keeps. \<^verbatim>\<open>percentage_read\<close> is the integer
  \<open>0\<close> of line 48 or the float of line 50; in \<^verbatim>\<open>(read_books / total_books) * 100\<close> the
  integer 100 becomes the float 100.0, which is exact.
\<close>

datatype pynumber = PyInt int | PyFloat pyfloat

record statistics =
  total :: int
  read :: int
  unread :: int
  percentage :: pynumber

definition get_statistics :: "LibraryManager \<Rightarrow> py_error + statistics" where
  "get_statistics self =
     (case py_len (library self) of
        Inl e \<Rightarrow> Inl e
      | Inr total_books \<Rightarrow>
          (case py_iter (library self) of
             Inl e \<Rightarrow> Inl e
           | Inr books \<Rightarrow>
               (case comprehension
                       (\<lambda>book. case getitem book (str ''read'') of
                                 Inl e \<Rightarrow> Inl e
                               | Inr r \<Rightarrow> Inr (truthy r))
                       books of
                  Inl e \<Rightarrow> Inl e
                | Inr kept \<Rightarrow>
                    (let read_books = sum_list (map (\<lambda>book. 1) kept)
                     in case (if total_books > 0
                              then (case py_truediv read_books total_books of
                                      Inl e \<Rightarrow> Inl e
                                    | Inr ratio \<Rightarrow> Inr (PyFloat (float_mul ratio 100)))
                              else Inr (PyInt 0)) of
                          Inl e \<Rightarrow> Inl e
                        | Inr percentage_read \<Rightarrow>
                            Inr \<lparr>total = total_books,
                                 read = read_books,
                                 unread = total_books - read_books,
                                 percentage = percentage_read\<rparr>))))"

text \<open>
  \<^verbatim>\<open>get_all_genres\<close>, lines 81 to 83: \<^verbatim>\<open>sorted(set(book["genre"] for book in self.library))\<close>.

  \<^verbatim>\<open>set\<close> takes the values one by one. A list or a dict cannot be hashed. A value equal to a
  member of the set is dropped, and Python has \<^verbatim>\<open>True == 1\<close> and \<^verbatim>\<open>False == 0\<close>. The set is
  kept as the list of its members, which are pairwise unequal.
\<close>

fun hashable :: "pyval \<Rightarrow> bool" where
  "hashable (PList xs) = False"
| "hashable (PDict kvs) = False"
| "hashable _ = True"

fun is_num :: "pyval \<Rightarrow> bool" where
  "is_num (PBool b) = True"
| "is_num (PInt i) = True"
| "is_num _ = False"

fun num_key :: "pyval \<Rightarrow> int" where
  "num_key (PBool b) = (if b then 1 else 0)"
| "num_key (PInt i) = i"
| "num_key _ = 0"

fun is_str :: "pyval \<Rightarrow> bool" where
  "is_str (PStr s) = True"
| "is_str _ = False"

fun str_key :: "pyval \<Rightarrow> pystr" where
  "str_key (PStr s) = s"
| "str_key _ = []"

text \<open>\<^verbatim>\<open>a == b\<close> on two hashable values.\<close>

definition py_eq :: "pyval \<Rightarrow> pyval \<Rightarrow> bool" where
  "py_eq a b = (if is_num a \<and> is_num b then num_key a = num_key b else a = b)"

definition set_add :: "pyval list \<Rightarrow> pyval \<Rightarrow> pyval list" where
  "set_add members v = (if list_ex (py_eq v) members then members else members @ [v])"

fun genre_set :: "pyval list \<Rightarrow> pyval list \<Rightarrow> py_error + pyval list" where
  "genre_set members [] = Inr members"
| "genre_set members (book # books) =
     (case getitem book (str ''genre'') of
        Inl e \<Rightarrow> Inl e
      | Inr g \<Rightarrow> if hashable g then genre_set (set_add members g) books else Inl TypeError)"

text \<open>
  \<^verbatim>\<open>sorted\<close> on the members of a set. With fewer than two members nothing is compared.
  Strings compare by their code points, position by position, and numbers by value; a
  comparison of a string with a number, or of \<^verbatim>\<open>None\<close> with anything, raises \<^verbatim>\<open>TypeError\<close>,
  and sorting values of both kinds has to make one.
\<close>

definition py_sorted :: "pyval list \<Rightarrow> py_error + pyval list" where
  "py_sorted members =
     (if length members \<le> 1 then Inr members
      else if list_all is_str members then Inr (sort_key str_key members)
      else if list_all is_num members then Inr (sort_key num_key members)
      else Inl TypeError)"

definition get_all_genres :: "LibraryManager \<Rightarrow> py_error + pyval list" where
  "get_all_genres self =
     (case py_iter (library self) of
        Inl e \<Rightarrow> Inl e
      | Inr books \<Rightarrow>
          (case genre_set [] books of
             Inl e \<Rightarrow> Inl e
           | Inr members \<Rightarrow> py_sorted members))"

text \<open>
  \<^verbatim>\<open>filter_by_genre\<close>, lines 85 to 89. With the argument \<^verbatim>\<open>"All Genres"\<close> the method returns
  \<^verbatim>\<open>self.library\<close> itself, whatever it holds. Only a string equals the string \<open>genre\<close>.
\<close>

definition filter_by_genre :: "LibraryManager \<Rightarrow> pystr \<Rightarrow> py_error + pyval" where
  "filter_by_genre self genre =
     (if genre = str ''All Genres'' then Inr (library self)
      else
        (case py_iter (library self) of
           Inl e \<Rightarrow> Inl e
         | Inr books \<Rightarrow>
             (case comprehension
                     (\<lambda>book. case getitem book (str ''genre'') of
                               Inl e \<Rightarrow> Inl e
                             | Inr g \<Rightarrow> Inr (g = PStr genre))
                     books of
                Inl e \<Rightarrow> Inl e
              | Inr results \<Rightarrow> Inr (PList results))))"

section \<open>Persistence\<close>

text \<open>
  The store reads and writes one file through Python's \<^verbatim>\<open>json\<close> module, which is not part
  of the repository. The model takes the module by its contract on the values above:
  \<^verbatim>\<open>json.dump\<close> writes a text that \<^verbatim>\<open>json.load\<close> parses back to the same value, lists and
  dicts in their order. A file is therefore described by what reading it gives:
  \<^item> \<open>Document v\<close>: a text that \<^verbatim>\<open>json.load\<close> parses to \<open>v\<close>;
  \<^item> \<open>Malformed msg\<close>: a text that \<^verbatim>\<open>json.load\<close> rejects with an exception whose text is \<open>msg\<close>;
  \<^item> \<open>Unreadable msg\<close>: a path that exists and that \<^verbatim>\<open>open\<close> rejects with such an exception.
  A file system maps the paths that exist to their files.
\<close>

datatype file_content = Document pyval | Malformed pystr | Unreadable pystr

type_synonym filesystem = "pystr \<rightharpoonup> file_content"

text \<open>
  What the operating system makes of a write, which the store cannot know in advance:
  the write goes through; \<^verbatim>\<open>open\<close> raises and the file stays as it was; or \<^verbatim>\<open>open\<close> has
  emptied the file and a later step raises, which leaves the path with some content.
\<close>

datatype write_outcome = Written | OpenFailed pystr | WriteFailed file_content pystr

text \<open>
  \<^verbatim>\<open>save_library\<close>, lines 59 to 67. The result is the value returned, the messages passed
  to \<^verbatim>\<open>st.error\<close>, the store and the file system.
\<close>

definition save_library ::
  "LibraryManager \<Rightarrow> filesystem \<Rightarrow> write_outcome
     \<Rightarrow> bool \<times> pystr list \<times> LibraryManager \<times> filesystem" where
  "save_library self fs outcome =
     (case outcome of
        Written \<Rightarrow> (True, [], self, fs(filename self \<mapsto> Document (library self)))
      | OpenFailed msg \<Rightarrow> (False, [str ''Error saving library: '' @ msg], self, fs)
      | WriteFailed remains msg \<Rightarrow>
          (False, [str ''Error saving library: '' @ msg], self,
           fs(filename self \<mapsto> remains)))"

text \<open>
  \<^verbatim>\<open>load_library\<close>, lines 69 to 79. The result is the value returned, the messages passed
  to \<^verbatim>\<open>st.error\<close> and the store.
\<close>

definition load_library ::
  "LibraryManager \<Rightarrow> filesystem \<Rightarrow> bool \<times> pystr list \<times> LibraryManager" where
  "load_library self fs =
     (case fs (filename self) of
        Some f \<Rightarrow>
          (case f of
             Document v \<Rightarrow> (True, [], self\<lparr>library := v\<rparr>)
           | Malformed msg \<Rightarrow> (False, [str ''Error loading library: '' @ msg], self)
           | Unreadable msg \<Rightarrow> (False, [str ''Error loading library: '' @ msg], self))
      | None \<Rightarrow> (False, [], self))"

text \<open>
  \<^verbatim>\<open>__init__\<close>, lines 8 to 11: an empty list, the file name, and a call of \<^verbatim>\<open>load_library\<close>
  whose return value is dropped.
\<close>

definition init :: "filesystem \<Rightarrow> pystr list \<times> LibraryManager" where
  "init fs = snd (load_library \<lparr>library = PList [], filename = str ''library.txt''\<rparr> fs)"

section \<open>Catalogs of book records\<close>

text \<open>
  The data model of the specification: a book record has a title, an author, a year, a
  genre, a read flag and the date it was added; a catalog is a sequence of book records.
  \<open>book_dict\<close> is the dict \<^verbatim>\<open>add_book\<close> builds for such a record, and \<open>catalog\<close> the list
  \<^verbatim>\<open>self.library\<close> holds for such a sequence.
\<close>

record Book =
  book_title :: pystr
  book_author :: pystr
  book_year :: int
  book_genre :: pystr
  book_read :: bool
  book_date_added :: pystr

definition book_dict :: "Book \<Rightarrow> pyval" where
  "book_dict b = PDict
     [(str ''title'', PStr (book_title b)),
      (str ''author'', PStr (book_author b)),
      (str ''year'', PInt (book_year b)),
      (str ''genre'', PStr (book_genre b)),
      (str ''read'', PBool (book_read b)),
      (str ''date_added'', PStr (book_date_added b))]"

definition catalog :: "Book list \<Rightarrow> pyval" where
  "catalog bs = PList (map book_dict bs)"

text \<open>
  What the specification means by a case-insensitive substring, for ASCII text and apart
  from the code: two characters are the same letter when they are equal or one is a
  capital letter A to Z and the other the small letter 32 codes above it; \<open>needle\<close> is a
  case-insensitive substring of \<open>hay\<close> when some stretch of \<open>hay\<close> has the length of
  \<open>needle\<close> and the same letter at every position.
\<close>

definition same_letter :: "nat \<Rightarrow> nat \<Rightarrow> bool" where
  "same_letter a b =
     (a = b \<or> (65 \<le> a \<and> a \<le> 90 \<and> b = a + 32) \<or> (65 \<le> b \<and> b \<le> 90 \<and> a = b + 32))"

definition caseless_substring :: "pystr \<Rightarrow> pystr \<Rightarrow> bool" where
  "caseless_substring needle hay =
     (\<exists>pre mid suf. hay = pre @ mid @ suf \<and> list_all2 same_letter mid needle)"

text \<open>Three book records and a store that holds them, for the examples below.\<close>

definition dune :: Book where
  "dune = \<lparr>book_title = str ''Dune'', book_author = str ''Frank Herbert'', book_year = 1965,
           book_genre = str ''Sci-Fi'', book_read = True,
           book_date_added = str ''2024-03-01''\<rparr>"

definition hamlet :: Book where
  "hamlet = \<lparr>book_title = str ''Hamlet'', book_author = str ''William Shakespeare'',
             book_year = 1603, book_genre = str ''Drama'', book_read = False,
             book_date_added = str ''2024-03-02''\<rparr>"

definition emma :: Book where
  "emma = \<lparr>book_title = str ''Emma'', book_author = str ''Jane Austen'', book_year = 1815,
           book_genre = str ''Drama'', book_read = True,
           book_date_added = str ''2024-03-05''\<rparr>"

definition shelf :: LibraryManager where
  "shelf = \<lparr>library = catalog [dune, hamlet, emma], filename = str ''library.txt''\<rparr>"

text \<open>
  A database with the entries of the Unicode character database for the ASCII characters
  and for the Greek capital letters Alpha to Omega (U+0391 to U+03A9, where U+03A2 is not
  assigned) and small letters alpha to omega (U+03B1 to U+03C9): the letters are cased, the
  lowercase mapping of a capital letter is the letter 32 codes above it, and the
  case-ignorable characters are the apostrophe, the full stop, the colon, the circumflex and
  the grave accent. The examples have no other character.
\<close>

definition sample_db :: unicode_db where
  "sample_db =
     \<lparr>lowercase_mapping =
        (\<lambda>c. if (65 \<le> c \<and> c \<le> 90) \<or> (913 \<le> c \<and> c \<le> 937 \<and> c \<noteq> 930)
             then [c + 32] else [c]),
      cased =
        (\<lambda>c. (65 \<le> c \<and> c \<le> 90) \<or> (97 \<le> c \<and> c \<le> 122)
             \<or> (913 \<le> c \<and> c \<le> 937 \<and> c \<noteq> 930) \<or> (945 \<le> c \<and> c \<le> 969)),
      case_ignorable = (\<lambda>c. c \<in> {39, 46, 58, 94, 96})\<rparr>"

text \<open>A record whose title is the three capital letters Alpha, Sigma, Beta.\<close>

definition greek_book :: Book where
  "greek_book = \<lparr>book_title = [913, 931, 914], book_author = str ''Anon'', book_year = 2001,
                 book_genre = str ''Poetry'', book_read = False,
                 book_date_added = str ''2024-03-07''\<rparr>"

section \<open>Reading a catalog\<close>

lemma str_eq_iff [simp]: "str a = str b \<longleftrightarrow> a = b"
proof -
  have "inj (of_char :: char \<Rightarrow> nat)" by (rule injI) simp
  then show ?thesis by (simp add: str_def inj_map_eq_map)
qed

lemma str_Nil [simp]: "str [] = []"
  by (simp add: str_def)

lemma getitem_book_dict:
  "getitem (book_dict b) (str ''title'') = Inr (PStr (book_title b))"
  "getitem (book_dict b) (str ''author'') = Inr (PStr (book_author b))"
  "getitem (book_dict b) (str ''genre'') = Inr (PStr (book_genre b))"
  "getitem (book_dict b) (str ''read'') = Inr (PBool (book_read b))"
  by (simp_all add: book_dict_def)

lemma py_len_catalog: "py_len (catalog bs) = Inr (int (length bs))"
  by (simp add: catalog_def)

lemma py_iter_catalog: "py_iter (catalog bs) = Inr (map book_dict bs)"
  by (simp add: catalog_def)

text \<open>
  The dict of a record has the six keys of \<^verbatim>\<open>add_book\<close>, each once. A record determines its
  dict and a sequence of records its list, field for field.
\<close>

lemma book_dict_keys:
  "\<exists>kvs. book_dict b = PDict kvs \<and> distinct (map fst kvs)
     \<and> map fst kvs =
         map str [''title'', ''author'', ''year'', ''genre'', ''read'', ''date_added'']"
  by (simp add: book_dict_def)

lemma book_dict_inj: "book_dict b = book_dict c \<longleftrightarrow> b = c"
  by (cases b, cases c) (auto simp add: book_dict_def)

lemma catalog_inj: "catalog bs = catalog cs \<longleftrightarrow> bs = cs"
proof -
  have "inj book_dict" by (rule injI) (simp add: book_dict_inj)
  then show ?thesis by (simp add: catalog_def inj_map_eq_map)
qed

text \<open>
  On book records a condition that never raises turns the comprehension into a filter.
\<close>

lemma comprehension_books:
  assumes "\<And>b. cond (book_dict b) = Inr (p b)"
  shows "comprehension cond (map book_dict bs) = Inr (map book_dict (filter p bs))"
  using assms by (induction bs) auto

lemma pop_catalog:
  "0 \<le> i \<Longrightarrow> i < int (length bs) \<Longrightarrow>
   pop (catalog bs) i =
     Inr (book_dict (bs ! nat i), catalog (take (nat i) bs @ drop (Suc (nat i)) bs))"
  by (simp add: catalog_def take_map drop_map)

section \<open>Removing a record\<close>

text \<open>
  C1. On a catalog \<open>bs\<close>, \<^verbatim>\<open>remove_book\<close> with an index \<open>i\<close> such that \<open>0 \<le> i < length bs\<close>
  returns \<open>(True, title of bs ! i)\<close> and leaves the catalog without its record at position
  \<open>i\<close>: one record shorter, the records before \<open>i\<close> where they were, each later record one
  position down. With \<open>i < 0\<close> or \<open>i \<ge> length bs\<close> it returns \<open>(False, "")\<close> and leaves the
  catalog as it was.
\<close>

theorem remove_book_spec:
  "(0 \<le> i \<and> i < int (length bs) \<longrightarrow>
      remove_book (self\<lparr>library := catalog bs\<rparr>) i =
        (Inr (True, PStr (book_title (bs ! nat i))),
         self\<lparr>library := catalog (take (nat i) bs @ drop (Suc (nat i)) bs)\<rparr>)
      \<and> length (take (nat i) bs @ drop (Suc (nat i)) bs) + 1 = length bs
      \<and> (\<forall>k. k < nat i \<longrightarrow> (take (nat i) bs @ drop (Suc (nat i)) bs) ! k = bs ! k)
      \<and> (\<forall>k. nat i \<le> k \<and> k + 1 < length bs \<longrightarrow>
             (take (nat i) bs @ drop (Suc (nat i)) bs) ! k = bs ! (k + 1)))
   \<and> (i < 0 \<or> int (length bs) \<le> i \<longrightarrow>
      remove_book (self\<lparr>library := catalog bs\<rparr>) i =
        (Inr (False, PStr (str '''')), self\<lparr>library := catalog bs\<rparr>))"
proof (intro conjI impI allI)
  assume r: "0 \<le> i \<and> i < int (length bs)"
  then show "remove_book (self\<lparr>library := catalog bs\<rparr>) i =
        (Inr (True, PStr (book_title (bs ! nat i))),
         self\<lparr>library := catalog (take (nat i) bs @ drop (Suc (nat i)) bs)\<rparr>)"
    by (simp add: remove_book_def py_len_catalog pop_catalog getitem_book_dict)
  from r show "length (take (nat i) bs @ drop (Suc (nat i)) bs) + 1 = length bs"
    by auto
  fix k
  { assume "k < nat i"
    with r show "(take (nat i) bs @ drop (Suc (nat i)) bs) ! k = bs ! k"
      by (auto simp add: nth_append) }
  { assume "nat i \<le> k \<and> k + 1 < length bs"
    with r show "(take (nat i) bs @ drop (Suc (nat i)) bs) ! k = bs ! (k + 1)"
      by (auto simp add: nth_append min_def) }
next
  assume "i < 0 \<or> int (length bs) \<le> i"
  then show "remove_book (self\<lparr>library := catalog bs\<rparr>) i =
        (Inr (False, PStr (str '''')), self\<lparr>library := catalog bs\<rparr>)"
    by (auto simp add: remove_book_def py_len_catalog)
qed

text \<open>Removing at index 1, at index 3 and at index -1 from a catalog of three records.\<close>

theorem remove_book_spec_witness:
  "remove_book shelf 1 =
     (Inr (True, PStr (str ''Hamlet'')), shelf\<lparr>library := catalog [dune, emma]\<rparr>)
   \<and> remove_book shelf 3 = (Inr (False, PStr (str '''')), shelf)
   \<and> remove_book shelf (- 1) = (Inr (False, PStr (str '''')), shelf)"
  using remove_book_spec [where i = 1 and bs = "[dune, hamlet, emma]" and self = shelf]
    remove_book_spec [where i = 3 and bs = "[dune, hamlet, emma]" and self = shelf]
    remove_book_spec [where i = "- 1" and bs = "[dune, hamlet, emma]" and self = shelf]
  by (simp add: shelf_def hamlet_def)

section \<open>Statistics\<close>

subsection \<open>Rounding\<close>

lemma round_half_even_error: "\<bar>of_int (round_half_even q) - q\<bar> \<le> 1 / 2"
proof -
  define n f where "n = \<lfloor>q\<rfloor>" and "f = q - of_int \<lfloor>q\<rfloor>"
  have f: "0 \<le> f" "f < 1" and q: "q = of_int n + f"
    unfolding n_def f_def by linarith+
  have "round_half_even q =
     (if f < 1 / 2 then n else if 1 / 2 < f then n + 1 else if even n then n else n + 1)"
    by (simp add: round_half_even_def Let_def n_def f_def)
  then show ?thesis
    using f unfolding q by (auto simp add: abs_if)
qed

lemma round_half_even_nonneg: "0 \<le> q \<Longrightarrow> 0 \<le> round_half_even q"
  by (auto simp add: round_half_even_def Let_def)

lemma pow2_pos: "(0::rat) < 2 powi n"
  by (simp add: power_int_def)

text \<open>\<open>ilog2\<close> is the exponent of the power of two at or below a positive number.\<close>

lemma ilog2_bounds:
  assumes "0 < x"
  shows "2 powi (ilog2 x) \<le> x \<and> x < 2 powi (ilog2 x + 1)"
proof -
  obtain p q where pq: "quotient_of x = (p, q)" by (cases "quotient_of x")
  then have q: "0 < q" and x: "x = of_int p / of_int q"
    by (simp_all add: quotient_of_denom_pos quotient_of_div)
  with assms have p: "0 < p" by (simp add: zero_less_divide_iff)
  define bp bq where "bp = bitlen p" and "bq = bitlen q"
  have bp1: "1 \<le> bp" and bq1: "1 \<le> bq"
    using p q bitlen_eq_zero_iff [of p] bitlen_eq_zero_iff [of q] bitlen_nonneg [of p]
      bitlen_nonneg [of q] by (auto simp add: bp_def bq_def)
  have "2 ^ nat (bp - 1) \<le> p" "p < 2 ^ nat bp" "2 ^ nat (bq - 1) \<le> q" "q < 2 ^ nat bq"
    using bitlen_bounds [OF p] bitlen_bounds [OF q] by (simp_all add: bp_def bq_def)
  then have "(of_int (2 ^ nat (bp - 1)) :: rat) \<le> of_int p"
    "(of_int p :: rat) < of_int (2 ^ nat bp)"
    "(of_int (2 ^ nat (bq - 1)) :: rat) \<le> of_int q"
    "(of_int q :: rat) < of_int (2 ^ nat bq)"
    by (simp_all only: of_int_le_iff of_int_less_iff)
  then have b: "(2::rat) powi (bp - 1) \<le> of_int p" "(of_int p :: rat) < 2 powi bp"
    "(2::rat) powi (bq - 1) \<le> of_int q" "(of_int q :: rat) < 2 powi bq"
    using bp1 bq1 by (simp_all add: power_int_def)
  have up: "x < 2 powi (bp - bq + 1)"
  proof -
    have "x < 2 powi bp / 2 powi (bq - 1)"
      unfolding x using b p q pow2_pos by (intro frac_less) simp_all
    also have "\<dots> = 2 powi (bp - bq + 1)"
      by (simp add: power_int_diff [symmetric] algebra_simps)
    finally show ?thesis .
  qed
  have lo: "2 powi (bp - bq - 1) \<le> x"
  proof -
    have "(2::rat) powi (bp - bq - 1) = 2 powi (bp - 1) / 2 powi bq"
      by (simp add: power_int_diff [symmetric] algebra_simps)
    also have "\<dots> \<le> x"
      unfolding x using b p q pow2_pos by (intro frac_le) simp_all
    finally show ?thesis .
  qed
  show ?thesis
    using up lo by (simp add: ilog2_def pq Let_def bp_def [symmetric] bq_def [symmetric])
qed

text \<open>
  Rounding moves a number of at most \<open>2 ^ k\<close> by at most half a unit in the last place
  of the floats below \<open>2 ^ (k + 1)\<close>.
\<close>

lemma round_binary64_error:
  assumes "0 \<le> x" "x \<le> 2 powi k" "- 1022 \<le> k"
  shows "\<bar>round_binary64 x - x\<bar> \<le> 2 powi (k - 53)"
proof (cases "x = 0")
  case True
  then show ?thesis using pow2_pos [of "k - 53"] by (simp add: round_binary64_def)
next
  case False
  with assms have x: "0 < x" by simp
  define u where "u = max (ilog2 x - 52) (- 1074)"
  have "2 powi (ilog2 x) \<le> (2::rat) powi k"
    using ilog2_bounds [OF x] assms(2) by linarith
  then have "ilog2 x \<le> k"
    using power_int_strict_increasing [of k "ilog2 x" "2::rat"]
    by (cases "ilog2 x \<le> k") auto
  with assms(3) have uk: "u - 1 \<le> k - 53" by (simp add: u_def)
  have r: "round_binary64 x = of_int (round_half_even (x / 2 powi u)) * 2 powi u"
    using x by (simp add: round_binary64_def u_def Let_def)
  have "\<bar>round_binary64 x - x\<bar> =
      \<bar>of_int (round_half_even (x / 2 powi u)) - x / 2 powi u\<bar> * 2 powi u"
  proof -
    have "of_int (round_half_even (x / 2 powi u)) * 2 powi u - x =
        (of_int (round_half_even (x / 2 powi u)) - x / 2 powi u) * 2 powi u"
      using pow2_pos [of u] by (simp add: left_diff_distrib)
    then show ?thesis
      unfolding r using pow2_pos [of u] by (simp add: abs_mult)
  qed
  also have "\<dots> \<le> 1 / 2 * 2 powi u"
    using round_half_even_error [of "x / 2 powi u"] pow2_pos [of u]
    by (intro mult_right_mono) simp_all
  also have "\<dots> = 2 powi (u - 1)"
    by (simp add: power_int_diff)
  also have "\<dots> \<le> 2 powi (k - 53)"
    using uk by (intro power_int_increasing) simp_all
  finally show ?thesis .
qed

lemma round_binary64_nonneg: "0 \<le> x \<Longrightarrow> 0 \<le> round_binary64 x"
  using pow2_pos by (simp add: round_binary64_def Let_def round_half_even_nonneg)

lemma max_binary64_large: "129 \<le> max_binary64"
proof -
  have "(1::rat) \<le> 2 ^ 971" by simp
  then have "(129::rat) * 1 \<le> (2 ^ 53 - 1) * 2 ^ 971"
    by (intro mult_mono) simp_all
  then show ?thesis by (simp add: max_binary64_def)
qed

text \<open>
  The two roundings of line 50, for a count \<open>r\<close> of at most \<open>t\<close> records: neither
  operation overflows, and the result is within \<open>2 ^ -45\<close> of \<open>100 * r / t\<close>.
\<close>

lemma percentage_rounding:
  fixes r t :: nat
  assumes "r \<le> t" "0 < t"
  defines "x \<equiv> (of_nat r / of_nat t :: rat)"
  shows "py_truediv (int r) (int t) = Inr (round_binary64 x)"
    and "float_mul (round_binary64 x) 100 = Finite (round_binary64 (round_binary64 x * 100))"
    and "\<bar>round_binary64 (round_binary64 x * 100) - 100 * x\<bar> \<le> 1 / 2 ^ 45"
proof -
  have x: "0 \<le> x" "x \<le> 2 powi 0"
    using assms by (simp_all add: x_def)
  have e1: "\<bar>round_binary64 x - x\<bar> \<le> 1 / 2 ^ 53"
    using round_binary64_error [OF x] by (simp add: power_int_minus_divide)
  have f0: "0 \<le> round_binary64 x" using x by (simp add: round_binary64_nonneg)
  have f1: "round_binary64 x \<le> 1 + 1 / 2 ^ 53"
    using e1 x unfolding abs_diff_le_iff by simp
  show "py_truediv (int r) (int t) = Inr (round_binary64 x)"
    using assms(2) f0 f1 max_binary64_large by (simp add: py_truediv_def x_def Let_def)
  define y where "y = round_binary64 x * 100"
  have y: "0 \<le> y" "y \<le> 2 powi 7"
    using f0 f1 by (simp_all add: y_def)
  have e2: "\<bar>round_binary64 y - y\<bar> \<le> 1 / 2 ^ 46"
    using round_binary64_error [OF y] by (simp add: power_int_minus_divide)
  have g0: "0 \<le> round_binary64 y" using y by (simp add: round_binary64_nonneg)
  have g1: "round_binary64 y \<le> 129"
    using e2 y unfolding abs_diff_le_iff by simp
  show "float_mul (round_binary64 x) 100 = Finite (round_binary64 (round_binary64 x * 100))"
    using g0 g1 max_binary64_large by (simp add: float_mul_def Let_def y_def [symmetric])
  have "\<bar>round_binary64 y - 100 * x\<bar> \<le>
      \<bar>round_binary64 y - y\<bar> + 100 * \<bar>round_binary64 x - x\<bar>"
    by (simp add: y_def abs_if split: if_splits)
  also have "\<dots> \<le> 1 / 2 ^ 46 + 100 * (1 / 2 ^ 53)"
    using e1 e2 by simp
  also have "\<dots> \<le> 1 / 2 ^ 45" by simp
  finally show "\<bar>round_binary64 (round_binary64 x * 100) - 100 * x\<bar> \<le> 1 / 2 ^ 45"
    by (simp add: y_def)
qed

text \<open>Two of three, as Python prints it: 66.66666666666666.\<close>

lemma percentage_two_of_three:
  "round_binary64 (round_binary64 (2 / 3) * 100) = 2345624805922133 / 35184372088832"
  by code_simp

lemma percentage_one_of_one: "round_binary64 (round_binary64 1 * 100) = 100"
  by code_simp

subsection \<open>The statistics of a catalog\<close>

lemma sum_ones: "sum_list (map (\<lambda>x. 1) xs) = int (length xs)"
  by (induction xs) auto

lemma get_statistics_catalog:
  "get_statistics (self\<lparr>library := catalog bs\<rparr>) =
     Inr \<lparr>total = int (length bs),
          read = int (length (filter book_read bs)),
          unread = int (length bs) - int (length (filter book_read bs)),
          percentage =
            (if 0 < length bs
             then PyFloat (Finite (round_binary64
                    (round_binary64 (of_nat (length (filter book_read bs)) / of_nat (length bs))
                     * 100)))
             else PyInt 0)\<rparr>"
proof -
  have kept: "comprehension
          (\<lambda>book. case getitem book (str ''read'') of
                    Inl e \<Rightarrow> Inl e | Inr r \<Rightarrow> Inr (truthy r))
          (map book_dict bs) = Inr (map book_dict (filter book_read bs))"
    by (rule comprehension_books) (simp add: getitem_book_dict)
  show ?thesis
  proof (cases "0 < length bs")
    case True
    have le: "length (filter book_read bs) \<le> length bs" by simp
    show ?thesis
      using True percentage_rounding(1,2) [OF le True]
      by (simp add: get_statistics_def py_len_catalog py_iter_catalog kept sum_ones
          Let_def comp_def)
  next
    case False
    then show ?thesis
      by (simp add: get_statistics_def py_len_catalog py_iter_catalog kept)
  qed
qed

text \<open>
  C2 says that the percentage equals \<open>100 * read / total\<close>. With two of three records read
  the code returns the float 66.66666666666666, which is not \<open>200 / 3\<close>.
\<close>

theorem get_statistics_spec_counterexample:
  "get_statistics shelf =
     Inr \<lparr>total = 3, read = 2, unread = 1,
          percentage = PyFloat (Finite (2345624805922133 / 35184372088832))\<rparr>
   \<and> (2345624805922133 / 35184372088832 :: rat) \<noteq> 100 * 2 / 3"
  using get_statistics_catalog [where self = shelf and bs = "[dune, hamlet, emma]"]
  by (simp add: shelf_def dune_def hamlet_def emma_def percentage_two_of_three)

text \<open>
  C2, amended. On a catalog \<open>bs\<close>, \<^verbatim>\<open>get_statistics\<close> returns the number of records as
  \<open>total\<close>, the number of records whose read flag is true as \<open>read\<close> and \<open>total - read\<close> as
  \<open>unread\<close>. When there is a record, \<open>percentage\<close> is the float that \<open>read / total\<close>, rounded
  to the nearest float, gives when multiplied by 100 and rounded again; it differs from
  \<open>100 * read / total\<close> by at most \<open>2 ^ -45\<close>. When there is none, \<open>percentage\<close> is the integer
  \<open>0\<close>: on the empty catalog all four values are \<open>0\<close> and nothing is raised, since the division,
  which raises on a zero divisor, is not reached.
\<close>

theorem get_statistics_spec:
  "get_statistics (self\<lparr>library := catalog bs\<rparr>) =
     Inr \<lparr>total = int (length bs),
          read = int (length (filter book_read bs)),
          unread = int (length bs) - int (length (filter book_read bs)),
          percentage =
            (if 0 < length bs
             then PyFloat (Finite (round_binary64
                    (round_binary64 (of_nat (length (filter book_read bs)) / of_nat (length bs))
                     * 100)))
             else PyInt 0)\<rparr>
   \<and> \<bar>round_binary64
        (round_binary64 (of_nat (length (filter book_read bs)) / of_nat (length bs)) * 100)
      - 100 * of_nat (length (filter book_read bs)) / of_nat (length bs)\<bar> \<le> 1 / 2 ^ 45
   \<and> get_statistics (self\<lparr>library := catalog []\<rparr>) =
     Inr \<lparr>total = 0, read = 0, unread = 0, percentage = PyInt 0\<rparr>"
proof -
  have bound: "\<bar>round_binary64
        (round_binary64 (of_nat (length (filter book_read bs)) / of_nat (length bs)) * 100)
      - 100 * of_nat (length (filter book_read bs)) / of_nat (length bs)\<bar> \<le> 1 / 2 ^ 45"
  proof (cases "0 < length bs")
    case True
    have le: "length (filter book_read bs) \<le> length bs" by simp
    show ?thesis using percentage_rounding(3) [OF le True] by simp
  next
    case False
    then show ?thesis by (simp add: round_binary64_def)
  qed
  from get_statistics_catalog [where self = self and bs = bs]
    get_statistics_catalog [where self = self and bs = "[]"] bound
  show ?thesis by simp
qed

text \<open>Three records with two read, one record that is read, and no record.\<close>

theorem get_statistics_spec_witness:
  "get_statistics shelf =
     Inr \<lparr>total = 3, read = 2, unread = 1,
          percentage = PyFloat (Finite (2345624805922133 / 35184372088832))\<rparr>
   \<and> \<bar>(2345624805922133 / 35184372088832 :: rat) - 100 * 2 / 3\<bar> \<le> 1 / 2 ^ 45
   \<and> get_statistics (shelf\<lparr>library := catalog [dune]\<rparr>) =
       Inr \<lparr>total = 1, read = 1, unread = 0, percentage = PyFloat (Finite 100)\<rparr>
   \<and> get_statistics (shelf\<lparr>library := PList []\<rparr>) =
       Inr \<lparr>total = 0, read = 0, unread = 0, percentage = PyInt 0\<rparr>"
  using get_statistics_spec [where self = shelf and bs = "[dune, hamlet, emma]"]
    get_statistics_spec [where self = shelf and bs = "[dune]"]
  by (simp add: shelf_def dune_def hamlet_def emma_def percentage_two_of_three
      percentage_one_of_one) (simp add: catalog_def)

section \<open>Searching\<close>

text \<open>
  \<^verbatim>\<open>needle in hay\<close> holds exactly when \<open>hay\<close> is some text, then \<open>needle\<close>, then some text.
\<close>

lemma str_contains_iff:
  "str_contains needle hay \<longleftrightarrow> (\<exists>pre suf. hay = pre @ needle @ suf)"
proof (induction hay)
  case Nil
  then show ?case by simp
next
  case (Cons h hay)
  have "(\<exists>pre suf. h # hay = pre @ needle @ suf) \<longleftrightarrow>
        (\<exists>suf. h # hay = needle @ suf) \<or> (\<exists>pre suf. hay = pre @ needle @ suf)"
  proof
    assume "\<exists>pre suf. h # hay = pre @ needle @ suf"
    then obtain pre suf where e: "h # hay = pre @ needle @ suf" by blast
    show "(\<exists>suf. h # hay = needle @ suf) \<or> (\<exists>pre suf. hay = pre @ needle @ suf)"
    proof (cases pre)
      case Nil
      with e show ?thesis by auto
    next
      case (Cons p ps)
      with e have "hay = ps @ needle @ suf" by simp
      then show ?thesis by blast
    qed
  next
    assume "(\<exists>suf. h # hay = needle @ suf) \<or> (\<exists>pre suf. hay = pre @ needle @ suf)"
    then show "\<exists>pre suf. h # hay = pre @ needle @ suf"
    proof
      assume "\<exists>suf. h # hay = needle @ suf"
      then obtain suf where "h # hay = [] @ needle @ suf" by auto
      then show ?thesis by blast
    next
      assume "\<exists>pre suf. hay = pre @ needle @ suf"
      then obtain pre suf where "h # hay = (h # pre) @ needle @ suf" by auto
      then show ?thesis by blast
    qed
  qed
  with Cons show ?case by (simp add: prefix_def)
qed

text \<open>
  Two characters have the same image under \<open>ascii_lower\<close> exactly when they are the same
  letter, so folding the letters A to Z on both sides decides the case-insensitive
  substring.
\<close>

lemma ascii_lower_eq_iff: "ascii_lower a = ascii_lower b \<longleftrightarrow> same_letter a b"
  by (auto simp add: ascii_lower_def same_letter_def)

lemma map_ascii_lower_eq_iff:
  "map ascii_lower xs = map ascii_lower ys \<longleftrightarrow> list_all2 same_letter xs ys"
proof -
  have "map ascii_lower xs = map ascii_lower ys \<longleftrightarrow>
        list_all2 (=) (map ascii_lower xs) (map ascii_lower ys)"
    by (simp add: list_all2_eq)
  also have "\<dots> \<longleftrightarrow> list_all2 (\<lambda>a b. ascii_lower a = ascii_lower b) xs ys"
    by (simp add: list_all2_map1 list_all2_map2)
  finally show ?thesis by (simp add: ascii_lower_eq_iff)
qed

lemma caseless_substring_iff:
  "caseless_substring needle hay \<longleftrightarrow>
   str_contains (map ascii_lower needle) (map ascii_lower hay)"
proof
  assume "caseless_substring needle hay"
  then obtain pre mid suf where
    h: "hay = pre @ mid @ suf" and m: "list_all2 same_letter mid needle"
    by (auto simp add: caseless_substring_def)
  from m have "map ascii_lower mid = map ascii_lower needle"
    by (simp add: map_ascii_lower_eq_iff)
  with h have "map ascii_lower hay =
      map ascii_lower pre @ map ascii_lower needle @ map ascii_lower suf"
    by simp
  then show "str_contains (map ascii_lower needle) (map ascii_lower hay)"
    unfolding str_contains_iff by blast
next
  assume "str_contains (map ascii_lower needle) (map ascii_lower hay)"
  then obtain pre' suf' where
    "map ascii_lower hay = pre' @ map ascii_lower needle @ suf'"
    unfolding str_contains_iff by blast
  then obtain pre rest where
    h1: "hay = pre @ rest" and r: "map ascii_lower needle @ suf' = map ascii_lower rest"
    by (metis map_eq_append_conv)
  from r obtain mid suf where
    h2: "rest = mid @ suf" and m: "map ascii_lower mid = map ascii_lower needle"
    by (metis append_eq_map_conv)
  from m have "list_all2 same_letter mid needle"
    by (simp add: map_ascii_lower_eq_iff)
  with h1 h2 show "caseless_substring needle hay"
    by (auto simp add: caseless_substring_def)
qed

lemma lower_ascii: "is_ascii s \<Longrightarrow> lower db s = map ascii_lower s"
  by (simp add: lower_def)

lemma str_contains_empty: "str_contains (lower db []) s"
  by (simp add: str_contains_iff lower_def is_ascii_def) (rule exI [of _ "[]"], simp)

lemma search_by_title_catalog:
  "search_by_title db (self\<lparr>library := catalog bs\<rparr>) q =
     Inr (map book_dict
            (filter (\<lambda>b. str_contains (lower db q) (lower db (book_title b))) bs))"
  unfolding search_by_title_def
  by (simp add: py_iter_catalog) (rule comprehension_books, simp add: getitem_book_dict)

lemma search_by_author_catalog:
  "search_by_author db (self\<lparr>library := catalog bs\<rparr>) q =
     Inr (map book_dict
            (filter (\<lambda>b. str_contains (lower db q) (lower db (book_author b))) bs))"
  unfolding search_by_author_def
  by (simp add: py_iter_catalog) (rule comprehension_books, simp add: getitem_book_dict)

lemma filter_caseless:
  assumes "is_ascii q" "\<forall>b \<in> set bs. is_ascii (field b)"
  shows "filter (\<lambda>b. str_contains (lower db q) (lower db (field b))) bs =
         filter (\<lambda>b. caseless_substring q (field b)) bs"
  using assms by (intro filter_cong) (simp_all add: lower_ascii caseless_substring_iff)

text \<open>
  C3 says that the searches return exactly the records whose field contains the query as a
  case-insensitive substring. A record whose title is the capital letters Alpha, Sigma,
  Beta contains the query Alpha, Sigma as it stands, and \<^verbatim>\<open>search_by_title\<close> does not return
  it: \<^verbatim>\<open>str.lower\<close> ends the query with a final small sigma and gives the title a small sigma.
\<close>

theorem search_spec_counterexample:
  "book_title greek_book = [913, 931] @ [914]
   \<and> caseless_substring [913, 931] (book_title greek_book)
   \<and> search_by_title sample_db
        \<lparr>library = catalog [greek_book], filename = str ''library.txt''\<rparr> [913, 931] = Inr []"
proof -
  have "str_contains (map ascii_lower [913, 931]) (map ascii_lower (book_title greek_book))"
    by code_simp
  moreover have "search_by_title sample_db
        \<lparr>library = catalog [greek_book], filename = str ''library.txt''\<rparr> [913, 931] = Inr []"
    by code_simp
  ultimately show ?thesis
    by (simp add: caseless_substring_iff greek_book_def)
qed

text \<open>
  C3, amended. On a catalog \<open>bs\<close>, for every query \<open>q\<close> and every Unicode database,
  \<^verbatim>\<open>search_by_title\<close> returns, in the order of the catalog, exactly the records for which
  the query in lower case is a substring of the title in lower case, both as \<^verbatim>\<open>str.lower\<close>
  gives them, and \<^verbatim>\<open>search_by_author\<close> does the same on the author. When the query and the
  titles (the authors) are ASCII text, these are exactly the records whose title (author)
  contains the query as a case-insensitive substring. The empty query returns every record.
\<close>

theorem search_spec:
  "search_by_title db (self\<lparr>library := catalog bs\<rparr>) q =
     Inr (map book_dict
            (filter (\<lambda>b. \<exists>pre suf. lower db (book_title b) = pre @ lower db q @ suf) bs))
   \<and> search_by_author db (self\<lparr>library := catalog bs\<rparr>) q =
     Inr (map book_dict
            (filter (\<lambda>b. \<exists>pre suf. lower db (book_author b) = pre @ lower db q @ suf) bs))
   \<and> (is_ascii q \<and> (\<forall>b \<in> set bs. is_ascii (book_title b)) \<longrightarrow>
        search_by_title db (self\<lparr>library := catalog bs\<rparr>) q =
          Inr (map book_dict (filter (\<lambda>b. caseless_substring q (book_title b)) bs)))
   \<and> (is_ascii q \<and> (\<forall>b \<in> set bs. is_ascii (book_author b)) \<longrightarrow>
        search_by_author db (self\<lparr>library := catalog bs\<rparr>) q =
          Inr (map book_dict (filter (\<lambda>b. caseless_substring q (book_author b)) bs)))
   \<and> search_by_title db (self\<lparr>library := catalog bs\<rparr>) (str '''') = Inr (map book_dict bs)
   \<and> search_by_author db (self\<lparr>library := catalog bs\<rparr>) (str '''') = Inr (map book_dict bs)"
  unfolding str_contains_iff [symmetric]
  by (simp add: search_by_title_catalog search_by_author_catalog filter_caseless
      str_contains_empty)

text \<open>ASCII queries in another case than the stored text, and the empty query.\<close>

theorem search_spec_witness:
  "search_by_title sample_db shelf (str ''dUN'') = Inr [book_dict dune]
   \<and> search_by_author sample_db shelf (str ''AUSTEN'') = Inr [book_dict emma]
   \<and> search_by_title sample_db shelf (str '''') =
       Inr [book_dict dune, book_dict hamlet, book_dict emma]"
proof -
  have t: "is_ascii (str ''dUN'') \<and> (\<forall>b \<in> set [dune, hamlet, emma]. is_ascii (book_title b))"
    by code_simp
  have a: "is_ascii (str ''AUSTEN'')
      \<and> (\<forall>b \<in> set [dune, hamlet, emma]. is_ascii (book_author b))"
    by code_simp
  have ft: "filter (\<lambda>b. str_contains (map ascii_lower (str ''dUN''))
                (map ascii_lower (book_title b))) [dune, hamlet, emma] = [dune]"
    by code_simp
  have fa: "filter (\<lambda>b. str_contains (map ascii_lower (str ''AUSTEN''))
                (map ascii_lower (book_author b))) [dune, hamlet, emma] = [emma]"
    by code_simp
  note dun = search_spec [where db = sample_db and self = shelf
      and bs = "[dune, hamlet, emma]" and q = "str ''dUN''"]
  note austen = search_spec [where db = sample_db and self = shelf
      and bs = "[dune, hamlet, emma]" and q = "str ''AUSTEN''"]
  have s: "shelf\<lparr>library := catalog [dune, hamlet, emma]\<rparr> = shelf"
    by (simp add: shelf_def)
  from dun t have "search_by_title sample_db (shelf\<lparr>library := catalog [dune, hamlet, emma]\<rparr>)
      (str ''dUN'') =
      Inr (map book_dict (filter (\<lambda>b. caseless_substring (str ''dUN'') (book_title b))
        [dune, hamlet, emma]))"
    by blast
  then have "search_by_title sample_db shelf (str ''dUN'') = Inr [book_dict dune]"
    unfolding caseless_substring_iff ft s by simp
  moreover from austen a
  have "search_by_author sample_db (shelf\<lparr>library := catalog [dune, hamlet, emma]\<rparr>)
      (str ''AUSTEN'') =
      Inr (map book_dict (filter (\<lambda>b. caseless_substring (str ''AUSTEN'') (book_author b))
        [dune, hamlet, emma]))"
    by blast
  then have "search_by_author sample_db shelf (str ''AUSTEN'') = Inr [book_dict emma]"
    unfolding caseless_substring_iff fa s by simp
  moreover from dun have "search_by_title sample_db
      (shelf\<lparr>library := catalog [dune, hamlet, emma]\<rparr>) (str '''') =
       Inr (map book_dict [dune, hamlet, emma])"
    by blast
  then have "search_by_title sample_db shelf (str '''') =
       Inr [book_dict dune, book_dict hamlet, book_dict emma]"
    unfolding s by simp
  ultimately show ?thesis by simp
qed

section \<open>Genres\<close>

text \<open>
  C6. On a catalog \<open>bs\<close>, \<^verbatim>\<open>filter_by_genre\<close> with the argument \<^verbatim>\<open>"All Genres"\<close> returns the
  whole catalog in its order; with any other argument \<open>g\<close> it returns, in the order of the
  catalog, exactly the records whose genre is the string \<open>g\<close>, character for character.
\<close>

theorem filter_by_genre_spec:
  "filter_by_genre (self\<lparr>library := catalog bs\<rparr>) (str ''All Genres'') = Inr (catalog bs)
   \<and> (g \<noteq> str ''All Genres'' \<longrightarrow>
        filter_by_genre (self\<lparr>library := catalog bs\<rparr>) g =
          Inr (catalog (filter (\<lambda>b. book_genre b = g) bs)))"
proof -
  have "comprehension
          (\<lambda>book. case getitem book (str ''genre'') of
                    Inl e \<Rightarrow> Inl e | Inr v \<Rightarrow> Inr (v = PStr g))
          (map book_dict bs) = Inr (map book_dict (filter (\<lambda>b. book_genre b = g) bs))"
    by (rule comprehension_books) (simp add: getitem_book_dict)
  then show ?thesis
    by (simp add: filter_by_genre_def py_iter_catalog) (simp add: catalog_def)
qed

text \<open>A genre two records have, the same genre in another case, and the marker.\<close>

theorem filter_by_genre_spec_witness:
  "filter_by_genre shelf (str ''Drama'') = Inr (catalog [hamlet, emma])
   \<and> filter_by_genre shelf (str ''drama'') = Inr (catalog [])
   \<and> filter_by_genre shelf (str ''All Genres'') = Inr (catalog [dune, hamlet, emma])"
  using filter_by_genre_spec [where self = shelf and bs = "[dune, hamlet, emma]"
      and g = "str ''Drama''"]
    filter_by_genre_spec [where self = shelf and bs = "[dune, hamlet, emma]"
      and g = "str ''drama''"]
  by (simp add: shelf_def dune_def hamlet_def emma_def)

text \<open>
  The set of the genres of a catalog: every genre is a string, so a genre joins the
  members exactly when it is not among them yet.
\<close>

lemma set_add_str:
  "set_add (map PStr acc) (PStr g) = map PStr (if g \<in> set acc then acc else acc @ [g])"
  by (induction acc) (auto simp add: set_add_def py_eq_def list_ex_iff)

lemma genre_set_books:
  "distinct acc \<Longrightarrow>
   \<exists>gs. genre_set (map PStr acc) (map book_dict bs) = Inr (map PStr gs)
        \<and> distinct gs \<and> set gs = set acc \<union> book_genre ` set bs"
proof (induction bs arbitrary: acc)
  case Nil
  then show ?case by auto
next
  case (Cons b bs)
  let ?acc = "if book_genre b \<in> set acc then acc else acc @ [book_genre b]"
  from Cons.prems have "distinct ?acc" by simp
  from Cons.IH [OF this] obtain gs where
    gs: "genre_set (map PStr ?acc) (map book_dict bs) = Inr (map PStr gs)"
      "distinct gs" "set gs = set ?acc \<union> book_genre ` set bs"
    by blast
  have "genre_set (map PStr acc) (map book_dict (b # bs)) = Inr (map PStr gs)"
    using gs(1) by (simp add: getitem_book_dict set_add_str del: map_append)
  moreover have "set gs = set acc \<union> book_genre ` set (b # bs)"
    using gs(3) by auto
  ultimately show ?case using gs(2) by blast
qed

text \<open>Sorting strings as Python values sorts the strings.\<close>

lemma insort_key_str:
  "insort_key str_key (PStr g) (map PStr gs) = map PStr (insort g gs)"
  by (induction gs) auto

lemma sort_key_str: "sort_key str_key (map PStr gs) = map PStr (sort gs)"
  by (induction gs) (simp_all add: insort_key_str)

lemma py_sorted_str: "py_sorted (map PStr gs) = Inr (map PStr (sort gs))"
proof (cases "length gs \<le> 1")
  case True
  then have "sort gs = gs"
    by (cases gs) (auto simp add: le_Suc_eq)
  with True show ?thesis by (simp add: py_sorted_def)
next
  case False
  have "list_all is_str (map PStr gs)"
    by (simp add: list_all_iff)
  with False show ?thesis by (simp add: py_sorted_def sort_key_str)
qed

text \<open>
  C7. On a catalog \<open>bs\<close>, \<^verbatim>\<open>get_all_genres\<close> returns a list \<open>gs\<close> of strings that is sorted
  ascending (strings compared code point by code point, a proper prefix before its
  extensions), has no duplicates, and contains a value exactly when some record of the
  catalog has that genre.
\<close>

theorem get_all_genres_spec:
  "\<exists>gs. get_all_genres (self\<lparr>library := catalog bs\<rparr>) = Inr (map PStr gs)
        \<and> sorted gs \<and> distinct gs
        \<and> (\<forall>g. g \<in> set gs \<longleftrightarrow> (\<exists>b \<in> set bs. book_genre b = g))"
proof -
  from genre_set_books [of "[]" bs] obtain gs where
    gs: "genre_set [] (map book_dict bs) = Inr (map PStr gs)"
      "distinct gs" "set gs = book_genre ` set bs"
    by auto
  have "get_all_genres (self\<lparr>library := catalog bs\<rparr>) = Inr (map PStr (sort gs))"
    by (simp add: get_all_genres_def py_iter_catalog gs(1) py_sorted_str)
  moreover have "sorted (sort gs)" "distinct (sort gs)"
    using gs(2) by simp_all
  moreover have "\<forall>g. g \<in> set (sort gs) \<longleftrightarrow> (\<exists>b \<in> set bs. book_genre b = g)"
    using gs(3) by auto
  ultimately show ?thesis by blast
qed

text \<open>Records added with the genres Sci-Fi, Drama and Drama.\<close>

lemma get_all_genres_example:
  "get_all_genres shelf = Inr [PStr (str ''Drama''), PStr (str ''Sci-Fi'')]"
  by code_simp

section \<open>Adding a record\<close>

text \<open>
  C8. On a catalog \<open>bs\<close> and for every title, author, genre (empty strings too), every
  integer year and every read flag, \<^verbatim>\<open>add_book\<close> raises nothing: it returns the record with
  these five values and the current date as \<open>date_added\<close>, and leaves the catalog \<open>bs\<close>
  followed by that record.
\<close>

theorem add_book_spec:
  "add_book (self\<lparr>library := catalog bs\<rparr>) today (PStr t) (PStr a) (PInt y) (PStr g) (PBool r) =
     (Inr (book_dict \<lparr>book_title = t, book_author = a, book_year = y, book_genre = g,
                      book_read = r, book_date_added = today\<rparr>),
      self\<lparr>library := catalog (bs @ [\<lparr>book_title = t, book_author = a, book_year = y,
                                        book_genre = g, book_read = r,
                                        book_date_added = today\<rparr>])\<rparr>)"
  by (simp add: add_book_def catalog_def book_dict_def Let_def)

text \<open>Adding to the empty catalog, and adding a record with empty texts and a negative year.\<close>

theorem add_book_spec_witness:
  "add_book (shelf\<lparr>library := PList []\<rparr>) (str ''2024-03-01'')
     (PStr (str ''Dune'')) (PStr (str ''Frank Herbert'')) (PInt 1965) (PStr (str ''Sci-Fi''))
     (PBool True) =
   (Inr (book_dict dune), shelf\<lparr>library := catalog [dune]\<rparr>)
   \<and> snd (add_book (shelf\<lparr>library := catalog [dune]\<rparr>) (str ''2024-03-09'')
     (PStr (str '''')) (PStr (str '''')) (PInt (- 5)) (PStr (str '''')) (PBool False)) =
   shelf\<lparr>library := catalog [dune, \<lparr>book_title = str '''', book_author = str '''',
     book_year = - 5, book_genre = str '''', book_read = False,
     book_date_added = str ''2024-03-09''\<rparr>]\<rparr>"
  using add_book_spec [where self = shelf and bs = "[]" and today = "str ''2024-03-01''"
      and t = "str ''Dune''" and a = "str ''Frank Herbert''" and y = 1965
      and g = "str ''Sci-Fi''" and r = True]
    add_book_spec [where self = shelf and bs = "[dune]" and today = "str ''2024-03-09''"
      and t = "str ''''" and a = "str ''''" and y = "- 5" and g = "str ''''" and r = False]
  by (simp add: dune_def catalog_def)

section \<open>Saving and loading\<close>

text \<open>
  C4. For every catalog \<open>bs\<close> and every file system, a store that holds \<open>bs\<close> and saves it
  with the write going through returns \<open>True\<close>, and a store constructed afterwards on the
  resulting file system holds \<open>bs\<close> again: the same records in the same order, each with
  the same title, author, year, genre, read flag and date, since two catalogs are the same
  list only if they are the same sequence of records.
\<close>

theorem save_load_roundtrip:
  "(let store = \<lparr>library = catalog bs, filename = str ''library.txt''\<rparr>;
        (ok, errors, store', fs') = save_library store fs Written
    in ok \<and> errors = [] \<and> store' = store \<and> init fs' = ([], store))
   \<and> (catalog bs = catalog cs \<longleftrightarrow> bs = cs)"
  by (simp add: save_library_def init_def load_library_def catalog_inj)

text \<open>Saving three records where no file exists, then constructing a store.\<close>

theorem save_load_roundtrip_witness:
  "init (snd (snd (snd (save_library shelf Map.empty Written)))) = ([], shelf)"
  using save_load_roundtrip [where bs = "[dune, hamlet, emma]" and fs = Map.empty]
  by (simp add: shelf_def split_def Let_def)

text \<open>
  C9. When the write does not go through, whether \<^verbatim>\<open>open\<close> raises or a later step does,
  \<^verbatim>\<open>save_library\<close> returns \<open>False\<close> and the store is the one it was called on. The method
  catches every exception, so it has no exceptional result.
\<close>

theorem save_library_failure:
  "outcome \<noteq> Written \<longrightarrow>
     (case save_library self fs outcome of
        (ok, errors, self', fs') \<Rightarrow> ok = False \<and> self' = self)"
  by (cases outcome) (simp_all add: save_library_def)

text \<open>A refused \<^verbatim>\<open>open\<close>, and a full disk that leaves a truncated file.\<close>

theorem save_library_failure_witness:
  "save_library shelf Map.empty (OpenFailed (str ''Permission denied'')) =
     (False, [str ''Error saving library: '' @ str ''Permission denied''], shelf, Map.empty)
   \<and> fst (save_library shelf Map.empty
        (WriteFailed (Malformed (str ''Expecting value'')) (str ''No space left on device'')))
      = False
   \<and> fst (snd (snd (save_library shelf Map.empty
        (WriteFailed (Malformed (str ''Expecting value'')) (str ''No space left on device'')))))
      = shelf"
  using save_library_failure [where self = shelf and fs = Map.empty
      and outcome = "OpenFailed (str ''Permission denied'')"]
    save_library_failure [where self = shelf and fs = Map.empty
      and outcome = "WriteFailed (Malformed (str ''Expecting value''))
                       (str ''No space left on device'')"]
  by (simp add: save_library_def)

text \<open>
  C5 says that loading when no file exists yields a result that is not a failure. The
  value \<^verbatim>\<open>load_library\<close> returns then is \<open>False\<close>, the value it returns for a file that
  \<^verbatim>\<open>json.load\<close> rejects.
\<close>

theorem load_library_missing_file_counterexample:
  "\<not> fst (load_library \<lparr>library = PList [], filename = str ''library.txt''\<rparr> Map.empty)
   \<and> fst (load_library \<lparr>library = PList [], filename = str ''library.txt''\<rparr> Map.empty) =
     fst (load_library \<lparr>library = PList [], filename = str ''library.txt''\<rparr>
            [str ''library.txt'' \<mapsto> Malformed (str ''Expecting value'')])"
  by (simp add: load_library_def)

text \<open>
  C5, amended. When no file exists at the path of the store, \<^verbatim>\<open>load_library\<close> returns
  \<open>False\<close>, passes no message to \<^verbatim>\<open>st.error\<close>, raises nothing and leaves the store as it
  was; a store constructed on such a file system holds the empty list and has reported
  nothing. \<open>False\<close> is also the value returned, for every message \<open>msg\<close>, when the file exists
  and \<^verbatim>\<open>json.load\<close> rejects its text or \<^verbatim>\<open>open\<close> rejects the path; then the message is
  reported and the store is left as it was. The method returns \<open>True\<close> exactly when the file
  exists and parses.
\<close>

theorem load_library_missing_file:
  "(fs (filename self) = None \<longrightarrow> load_library self fs = (False, [], self))
   \<and> (fs (str ''library.txt'') = None \<longrightarrow>
        init fs = ([], \<lparr>library = PList [], filename = str ''library.txt''\<rparr>))
   \<and> (fs (filename self) = Some (Malformed msg) \<longrightarrow>
        load_library self fs = (False, [str ''Error loading library: '' @ msg], self))
   \<and> (fs (filename self) = Some (Unreadable msg) \<longrightarrow>
        load_library self fs = (False, [str ''Error loading library: '' @ msg], self))
   \<and> (fst (load_library self fs) \<longleftrightarrow> (\<exists>v. fs (filename self) = Some (Document v)))"
  by (simp add: load_library_def init_def split: option.splits file_content.splits)

text \<open>
  No file at all, a file under another name only, a file that does not parse and a file
  that cannot be opened.
\<close>

theorem load_library_missing_file_witness:
  "load_library shelf Map.empty = (False, [], shelf)
   \<and> init [str ''notes.txt'' \<mapsto> Document (PList [])] =
       ([], \<lparr>library = PList [], filename = str ''library.txt''\<rparr>)
   \<and> load_library shelf [str ''library.txt'' \<mapsto> Malformed (str ''Expecting value'')] =
       (False, [str ''Error loading library: '' @ str ''Expecting value''], shelf)
   \<and> load_library shelf [str ''library.txt'' \<mapsto> Unreadable (str ''Permission denied'')] =
       (False, [str ''Error loading library: '' @ str ''Permission denied''], shelf)"
  using load_library_missing_file [where self = shelf and fs = Map.empty]
    load_library_missing_file [where fs = "[str ''notes.txt'' \<mapsto> Document (PList [])]"]
    load_library_missing_file [where self = shelf
      and fs = "[str ''library.txt'' \<mapsto> Malformed (str ''Expecting value'')]"
      and msg = "str ''Expecting value''"]
    load_library_missing_file [where self = shelf
      and fs = "[str ''library.txt'' \<mapsto> Unreadable (str ''Permission denied'')]"
      and msg = "str ''Permission denied''"]
  by (simp add: shelf_def)

text \<open>
  C10. \<^verbatim>\<open>load_library\<close> checks nothing about the value it parses: whenever the file of the
  store parses, to a value \<open>v\<close> of any shape, the method returns \<open>True\<close> and the store holds
  \<open>v\<close> in place of what it held. The other methods rely on a list of dicts with the keys of
  a book record: on a number \<^verbatim>\<open>get_statistics\<close> raises \<^verbatim>\<open>TypeError\<close>, on a list with a dict
  that has no \<^verbatim>\<open>read\<close> key it raises \<^verbatim>\<open>KeyError\<close>, and the searches raise likewise on an
  element that is no dict or lacks the key they read.
\<close>

theorem load_library_no_validation:
  "(fs (filename self) = Some (Document v) \<longrightarrow>
      load_library self fs = (True, [], self\<lparr>library := v\<rparr>))
   \<and> get_statistics (self\<lparr>library := PInt 7\<rparr>) = Inl TypeError
   \<and> get_statistics (self\<lparr>library := PList [PDict [(str ''title'', PStr (str ''Dune''))]]\<rparr>) =
       Inl KeyError
   \<and> search_by_title db (self\<lparr>library := PList [PInt 7]\<rparr>) q = Inl TypeError
   \<and> search_by_author db
        (self\<lparr>library := PList [PDict [(str ''title'', PStr (str ''Dune''))]]\<rparr>) q =
       Inl KeyError"
  by (simp add: load_library_def get_statistics_def search_by_title_def search_by_author_def)

text \<open>A file that holds the number 7, loaded into a store of three records.\<close>

theorem load_library_no_validation_witness:
  "load_library shelf [str ''library.txt'' \<mapsto> Document (PInt 7)] =
     (True, [], shelf\<lparr>library := PInt 7\<rparr>)
   \<and> get_statistics (shelf\<lparr>library := PInt 7\<rparr>) = Inl TypeError"
  using load_library_no_validation [where self = shelf
      and fs = "[str ''library.txt'' \<mapsto> Document (PInt 7)]" and v = "PInt 7"]
  by (simp add: shelf_def)

end
